theory Spec2Isabelle
  imports Complex_Main "HOL-Library.Word" "HOL-Library.Monad_Syntax"
begin

section \<open>Smart Black Pepper Guardian: sensor acquisition and consensus inference\<close>

text \<open>
  A shallow embedding of \<^verbatim>\<open>get_sensor_data\<close> and \<^verbatim>\<open>run_dashboard_cycle\<close> of
  \<^verbatim>\<open>app.py\<close>. Python floats are idealised as real numbers. Everything the code
  reads from outside (the random generator, the HTTP endpoint, the serial bus, the
  clock, the pickled models) is an explicit argument.
\<close>

subsection \<open>The sensor dictionary\<close>

text \<open>
  \<^verbatim>\<open>data\<close> is a dict with seven fixed keys, all initialised to \<^verbatim>\<open>0.0\<close>.
\<close>

record reading =
  Temperature :: real
  Moisture :: real
  Nitrogen :: real
  Phosphorus :: real
  Potassium :: real
  pH :: real
  Humidity :: real

definition data0 :: reading where
  "data0 = \<lparr>Temperature = 0, Moisture = 0, Nitrogen = 0, Phosphorus = 0,
            Potassium = 0, pH = 0, Humidity = 0\<rparr>"

text \<open>
  Every path on which the Python returns \<^verbatim>\<open>None\<close>, named after the message
  it shows: \<^verbatim>\<open>st.warning\<close> for the empty channel, \<^verbatim>\<open>st.error\<close> for the
  three handlers, and nothing at all when no branch of the mode chain matches.
\<close>

datatype failure =
  ChannelEmpty
  | ThingSpeakError
  | ModbusNotFound
  | SensorConnectionError
  | NoModeMatched

subsection \<open>Simulation Mode\<close>

text \<open>
  \<^verbatim>\<open>random.uniform(a, b)\<close> is \<^verbatim>\<open>a + (b - a) * random()\<close>, where
  \<^verbatim>\<open>random()\<close> lies in \<open>[0, 1)\<close>; the argument \<open>u\<close> is that draw.
  \<^verbatim>\<open>round(x, n)\<close> rounds to \<open>n\<close> decimals, halves to the even neighbour.
\<close>

definition uniform :: "real \<Rightarrow> real \<Rightarrow> real \<Rightarrow> real" where
  "uniform a b u = a + (b - a) * u"

definition round_half_even :: "real \<Rightarrow> int" where
  "round_half_even y =
     (let f = \<lfloor>y\<rfloor>; d = y - of_int f
      in if d < 1 / 2 then f
         else if 1 / 2 < d then f + 1
         else if even f then f else f + 1)"

definition py_round :: "real \<Rightarrow> nat \<Rightarrow> real" where
  "py_round x ndigits = of_int (round_half_even (x * 10 ^ ndigits)) / 10 ^ ndigits"

definition simulation_mode :: "(nat \<Rightarrow> real) \<Rightarrow> reading \<Rightarrow> reading" where
  "simulation_mode rnd data =
     data\<lparr>Temperature := py_round (uniform 22 35 (rnd 0)) 1,
          Moisture := py_round (uniform 40 80 (rnd 1)) 1,
          Nitrogen := py_round (uniform 100 250 (rnd 2)) 0,
          Phosphorus := py_round (uniform 10 60 (rnd 3)) 0,
          Potassium := py_round (uniform 150 300 (rnd 4)) 0,
          pH := py_round (uniform (55 / 10) (75 / 10) (rnd 5)) 2,
          Humidity := py_round (uniform 60 90 (rnd 6)) 1\<rparr>"

subsection \<open>ThingSpeak Cloud\<close>

text \<open>
  The value \<^verbatim>\<open>response.json()\<close> returns. A JSON object is its list of
  key-value pairs, looked up with \<open>map_of\<close>.
\<close>

datatype jval =
  JNull
  | JBool bool
  | JInt int
  | JFloat real
  | JStr string
  | JArr "jval list"
  | JObj "(string \<times> jval) list"

text \<open>Python truthiness, as \<^verbatim>\<open>if x:\<close> and \<^verbatim>\<open>x or y\<close> test it.\<close>

fun truthy :: "jval \<Rightarrow> bool" where
  "truthy JNull = False"
| "truthy (JBool b) = b"
| "truthy (JInt i) = (i \<noteq> 0)"
| "truthy (JFloat r) = (r \<noteq> 0)"
| "truthy (JStr s) = (s \<noteq> [])"
| "truthy (JArr xs) = (xs \<noteq> [])"
| "truthy (JObj kvs) = (kvs \<noteq> [])"

definition py_or :: "jval \<Rightarrow> jval \<Rightarrow> jval" where
  "py_or a b = (if truthy a then a else b)"

text \<open>
  \<^verbatim>\<open>float(v)\<close>; \<open>None\<close> is the \<^verbatim>\<open>ValueError\<close> or \<^verbatim>\<open>TypeError\<close> it
  raises. The conversion of a string is Python's own and is passed in as
  \<open>str2float\<close>.
\<close>

fun py_float :: "(string \<Rightarrow> real option) \<Rightarrow> jval \<Rightarrow> real option" where
  "py_float str2float (JStr s) = str2float s"
| "py_float str2float (JInt i) = Some (of_int i)"
| "py_float str2float (JFloat r) = Some r"
| "py_float str2float (JBool b) = Some (if b then 1 else 0)"
| "py_float str2float JNull = None"
| "py_float str2float (JArr xs) = None"
| "py_float str2float (JObj kvs) = None"

text \<open>\<^verbatim>\<open>v[key]\<close> with a string key: \<open>None\<close> is the \<^verbatim>\<open>KeyError\<close> or \<^verbatim>\<open>TypeError\<close>.\<close>

fun subscript_key :: "jval \<Rightarrow> string \<Rightarrow> jval option" where
  "subscript_key (JObj kvs) k = map_of kvs k"
| "subscript_key v k = None"

text \<open>
  \<^verbatim>\<open>v[-1]\<close>: the last element of a list, the last character of a string, a
  \<^verbatim>\<open>KeyError\<close> on a dict (JSON keys are strings), a \<^verbatim>\<open>TypeError\<close> otherwise.
\<close>

fun subscript_last :: "jval \<Rightarrow> jval option" where
  "subscript_last (JArr xs) = (if xs = [] then None else Some (last xs))"
| "subscript_last (JStr s) = (if s = [] then None else Some (JStr [last s]))"
| "subscript_last v = None"

text \<open>\<^verbatim>\<open>d.get(key)\<close> on a dict: \<^verbatim>\<open>None\<close> when the key is absent.\<close>

definition dict_get :: "(string \<times> jval) list \<Rightarrow> string \<Rightarrow> jval" where
  "dict_get d k = (case map_of d k of None \<Rightarrow> JNull | Some v \<Rightarrow> v)"

text \<open>
  \<^verbatim>\<open>float(latest.get(mapping[name]) or 0)\<close>; \<^verbatim>\<open>mapping[name]\<close> raises
  \<^verbatim>\<open>KeyError\<close> when the mapping has no such key.
\<close>

definition mapped_field ::
  "(string \<Rightarrow> real option) \<Rightarrow> (string \<times> jval) list \<Rightarrow> (string \<times> string) list \<Rightarrow> string
   \<Rightarrow> real option" where
  "mapped_field str2float latest mapping name =
     (case map_of mapping name of
        None \<Rightarrow> None
      | Some fid \<Rightarrow> py_float str2float (py_or (dict_get latest fid) (JInt 0)))"

text \<open>The seven assignments of the \<^verbatim>\<open>if mapping:\<close> branch, in order.\<close>

definition read_mapped ::
  "(string \<Rightarrow> real option) \<Rightarrow> (string \<times> jval) list \<Rightarrow> (string \<times> string) list \<Rightarrow> reading
   \<Rightarrow> reading option" where
  "read_mapped str2float latest mapping data =
     do {
       t \<leftarrow> mapped_field str2float latest mapping ''Temperature'';
       m \<leftarrow> mapped_field str2float latest mapping ''Moisture'';
       n \<leftarrow> mapped_field str2float latest mapping ''Nitrogen'';
       p \<leftarrow> mapped_field str2float latest mapping ''Phosphorus'';
       k \<leftarrow> mapped_field str2float latest mapping ''Potassium'';
       a \<leftarrow> mapped_field str2float latest mapping ''pH'';
       h \<leftarrow> mapped_field str2float latest mapping ''Humidity'';
       Some (data\<lparr>Temperature := t, Moisture := m, Nitrogen := n, Phosphorus := p,
                  Potassium := k, pH := a, Humidity := h\<rparr>)
     }"

text \<open>The fallback branch sets the temperature from \<^verbatim>\<open>field1\<close> and nothing else.\<close>

definition read_default ::
  "(string \<Rightarrow> real option) \<Rightarrow> (string \<times> jval) list \<Rightarrow> reading \<Rightarrow> reading option" where
  "read_default str2float latest data =
     do {
       t \<leftarrow> py_float str2float (py_or (dict_get latest ''field1'') (JInt 0));
       Some (data\<lparr>Temperature := t\<rparr>)
     }"

definition thingspeak_url :: "string \<Rightarrow> string \<Rightarrow> string" where
  "thingspeak_url ts_channel ts_key =
     ''https://api.thingspeak.com/channels/'' @ ts_channel @ ''/feeds.json?api_key=''
       @ ts_key @ ''&results=1''"

text \<open>
  What \<^verbatim>\<open>requests.get\<close> hands back: the status code and the body as
  \<^verbatim>\<open>response.json()\<close> decodes it (\<open>None\<close> when it is not JSON).
  \<^verbatim>\<open>raise_for_status\<close> raises on 4xx and 5xx.
\<close>

record http_response =
  status_code :: nat
  json_body :: "jval option"

definition raise_for_status :: "http_response \<Rightarrow> bool" where
  "raise_for_status response = (400 \<le> status_code response \<and> status_code response < 600)"

text \<open>
  The \<^verbatim>\<open>try\<close> block of the cloud branch. \<open>response = None\<close> is an exception
  from \<^verbatim>\<open>requests.get\<close> itself; each exception lands in the handler, which
  shows the error and returns \<^verbatim>\<open>None\<close>. A falsy or empty mapping takes the
  fallback branch.
\<close>

definition thingspeak_cloud ::
  "(string \<Rightarrow> real option) \<Rightarrow> http_response option \<Rightarrow> (string \<times> string) list \<Rightarrow> reading
   \<Rightarrow> failure + reading" where
  "thingspeak_cloud str2float response mapping data =
     (case response of
        None \<Rightarrow> Inl ThingSpeakError
      | Some resp \<Rightarrow>
          if raise_for_status resp then Inl ThingSpeakError
          else (case json_body resp of
             None \<Rightarrow> Inl ThingSpeakError
           | Some feed \<Rightarrow>
               (case subscript_key feed ''feeds'' of
                  None \<Rightarrow> Inl ThingSpeakError
                | Some feeds \<Rightarrow>
                    if truthy feeds then
                      (case subscript_last feeds of
                         None \<Rightarrow> Inl ThingSpeakError
                       | Some latest \<Rightarrow>
                           (case subscript_key latest ''created_at'' of
                              None \<Rightarrow> Inl ThingSpeakError
                            | Some created \<Rightarrow>
                                (case latest of
                                   JObj sample \<Rightarrow>
                                     (case (if mapping \<noteq> []
                                            then read_mapped str2float sample mapping data
                                            else read_default str2float sample data) of
                                        None \<Rightarrow> Inl ThingSpeakError
                                      | Some d \<Rightarrow> Inr d)
                                 | _ \<Rightarrow> Inl ThingSpeakError)))
                    else Inl ChannelEmpty)))"

subsection \<open>Live Sensor Mode\<close>

text \<open>
  The serial bus as the branch sees it: whether \<^verbatim>\<open>import minimalmodbus\<close>
  succeeds, whether \<^verbatim>\<open>Instrument(com_port, slave_id)\<close> opens the port, whether
  the serial settings are accepted, and what each register read returns
  (\<open>None\<close> is an exception: a timeout, a bad checksum, a lost connection).
\<close>

record modbus =
  driver_installed :: bool
  open_port :: "string \<Rightarrow> int \<Rightarrow> bool"
  configure :: "int \<Rightarrow> real \<Rightarrow> bool"
  read_raw :: "int \<Rightarrow> nat \<Rightarrow> 16 word option"

datatype serial = PortOpen | PortClosed

datatype exn = ImportError | OtherException

text \<open>
  \<^verbatim>\<open>instrument.read_register(address, decimals, functioncode=fc)\<close>: the
  unsigned 16-bit register divided by \<open>10 ^ decimals\<close>.
\<close>

definition read_register :: "modbus \<Rightarrow> nat \<Rightarrow> nat \<Rightarrow> int \<Rightarrow> real option" where
  "read_register env address decimals fc =
     map_option (\<lambda>raw. real (unat raw) / 10 ^ decimals) (read_raw env fc address)"

definition read_all :: "modbus \<Rightarrow> int \<Rightarrow> reading \<Rightarrow> reading option" where
  "read_all env fc data =
     do {
       t \<leftarrow> read_register env 0 1 fc;
       m \<leftarrow> read_register env 1 1 fc;
       n \<leftarrow> read_register env 2 0 fc;
       p \<leftarrow> read_register env 3 0 fc;
       k \<leftarrow> read_register env 4 0 fc;
       a \<leftarrow> read_register env 5 1 fc;
       h \<leftarrow> read_register env 6 1 fc;
       Some (data\<lparr>Temperature := t, Moisture := m, Nitrogen := n, Phosphorus := p,
                  Potassium := k, pH := a, Humidity := h\<rparr>)
     }"

text \<open>
  The \<^verbatim>\<open>try\<close> block: the value of the variable \<^verbatim>\<open>instrument\<close> when the
  block is left (\<open>None\<close> until the constructor has returned) and how it is left.
\<close>

definition live_try ::
  "string \<Rightarrow> int \<Rightarrow> int \<Rightarrow> real \<Rightarrow> int \<Rightarrow> modbus \<Rightarrow> reading
   \<Rightarrow> serial option \<times> (exn + reading)" where
  "live_try com_port baudrate slave_id timeout function_code env data =
     (if \<not> driver_installed env then (None, Inl ImportError)
      else if \<not> open_port env com_port slave_id then (None, Inl OtherException)
      else if \<not> configure env baudrate timeout then (Some PortOpen, Inl OtherException)
      else (case read_all env function_code data of
              None \<Rightarrow> (Some PortOpen, Inl OtherException)
            | Some d \<Rightarrow> (Some PortOpen, Inr d)))"

text \<open>
  The \<^verbatim>\<open>finally\<close> clause:
  \<^verbatim>\<open>if instrument and instrument.serial: instrument.serial.close()\<close>.
\<close>

definition finally_close :: "serial option \<Rightarrow> serial option" where
  "finally_close instrument =
     (case instrument of None \<Rightarrow> None | Some port \<Rightarrow> Some PortClosed)"

text \<open>
  The whole branch: what is returned, and the state of the instrument's port at that
  moment.
\<close>

definition live_sensor_mode ::
  "string \<Rightarrow> int \<Rightarrow> int \<Rightarrow> real \<Rightarrow> int \<Rightarrow> modbus \<Rightarrow> reading
   \<Rightarrow> (failure + reading) \<times> serial option" where
  "live_sensor_mode com_port baudrate slave_id timeout function_code env data =
     (case live_try com_port baudrate slave_id timeout function_code env data of
        (instrument, outcome) \<Rightarrow>
          ((case outcome of
              Inr d \<Rightarrow> Inr d
            | Inl ImportError \<Rightarrow> Inl ModbusNotFound
            | Inl OtherException \<Rightarrow> Inl SensorConnectionError),
           finally_close instrument))"

subsection \<open>The mode chain\<close>

record config =
  com_port :: string
  baudrate :: int
  slave_id :: int
  timeout :: real
  function_code :: int
  ts_channel :: string
  ts_key :: string
  mapping :: "(string \<times> string) list"

text \<open>
  The outside of one call: the draws of \<^verbatim>\<open>random.random()\<close> in call order, the
  answer of the HTTP endpoint to a URL, and the serial bus.
\<close>

record world =
  random_draw :: "nat \<Rightarrow> real"
  http_get :: "string \<Rightarrow> http_response option"
  bus :: modbus

definition get_sensor_data ::
  "(string \<Rightarrow> real option) \<Rightarrow> string \<Rightarrow> config \<Rightarrow> world \<Rightarrow> failure + reading" where
  "get_sensor_data str2float mode cfg w =
     (if mode = ''Simulation Mode'' then Inr (simulation_mode (random_draw w) data0)
      else if mode = ''ThingSpeak Cloud'' then
        thingspeak_cloud str2float
          (http_get w (thingspeak_url (ts_channel cfg) (ts_key cfg))) (mapping cfg) data0
      else if mode = ''Live Sensor Mode'' then
        fst (live_sensor_mode (com_port cfg) (baudrate cfg) (slave_id cfg) (timeout cfg)
               (function_code cfg) (bus w) data0)
      else Inl NoModeMatched)"

text \<open>The serial port of the instrument when \<^verbatim>\<open>get_sensor_data\<close> returns.\<close>

definition port_after :: "string \<Rightarrow> config \<Rightarrow> world \<Rightarrow> serial option" where
  "port_after mode cfg w =
     (if mode = ''Live Sensor Mode'' then
        snd (live_sensor_mode (com_port cfg) (baudrate cfg) (slave_id cfg) (timeout cfg)
               (function_code cfg) (bus w) data0)
      else None)"

subsection \<open>Inference\<close>

text \<open>
  The five pickled artefacts. A model's \<^verbatim>\<open>predict(...)[0]\<close> is a class code;
  \<^verbatim>\<open>encoder.inverse_transform([code])[0]\<close> raises on a code it has not seen.
\<close>

record resources =
  rf :: "real list \<Rightarrow> int"
  xgb :: "real list \<Rightarrow> int"
  svm :: "real list \<Rightarrow> int"
  scaler :: "real list \<Rightarrow> real list"
  encoder :: "int \<Rightarrow> string option"

definition input_data :: "reading \<Rightarrow> real list" where
  "input_data sensor_vals =
     [Temperature sensor_vals, Moisture sensor_vals, Nitrogen sensor_vals,
      Phosphorus sensor_vals, Potassium sensor_vals, pH sensor_vals]"

definition scaled_features :: "resources \<Rightarrow> reading \<Rightarrow> real list" where
  "scaled_features res sensor_vals = scaler res (input_data sensor_vals)"

text \<open>
  \<^verbatim>\<open>Counter(votes)\<close> is a dict from label to count that keeps the order in which
  labels were first seen: here the list of its items.
\<close>

fun counter_incr :: "'a \<Rightarrow> ('a \<times> nat) list \<Rightarrow> ('a \<times> nat) list" where
  "counter_incr x [] = [(x, 1)]"
| "counter_incr x ((y, n) # c) =
     (if x = y then (y, Suc n) # c else (y, n) # counter_incr x c)"

definition Counter :: "'a list \<Rightarrow> ('a \<times> nat) list" where
  "Counter xs = fold counter_incr xs []"

text \<open>
  \<^verbatim>\<open>most_common(1)\<close> is \<^verbatim>\<open>heapq.nlargest(1, items, key=count)\<close>, which for
  \<open>n = 1\<close> is \<^verbatim>\<open>max\<close> over the items: the first item with the largest count.
\<close>

fun max_by_count :: "('a \<times> nat) \<Rightarrow> ('a \<times> nat) list \<Rightarrow> ('a \<times> nat)" where
  "max_by_count best [] = best"
| "max_by_count best (e # es) = max_by_count (if snd best < snd e then e else best) es"

definition most_common_1 :: "('a \<times> nat) list \<Rightarrow> ('a \<times> nat) list" where
  "most_common_1 c = (case c of [] \<Rightarrow> [] | e # es \<Rightarrow> [max_by_count e es])"

text \<open>\<^verbatim>\<open>Counter(votes).most_common(1)[0][0]\<close>; \<open>None\<close> is the \<^verbatim>\<open>IndexError\<close>.\<close>

definition consensus_of :: "'a list \<Rightarrow> 'a option" where
  "consensus_of votes =
     (case most_common_1 (Counter votes) of [] \<Rightarrow> None | e # es \<Rightarrow> Some (fst e))"

record verdict =
  rf_pred :: string
  xgb_pred :: string
  svm_pred :: string
  consensus :: string

text \<open>
  Predictions, decoding and the vote; \<open>None\<close> is an exception, which nothing in
  \<^verbatim>\<open>run_dashboard_cycle\<close> catches.
\<close>

definition classify :: "resources \<Rightarrow> real list \<Rightarrow> verdict option" where
  "classify res features =
     do {
       r \<leftarrow> encoder res (rf res features);
       x \<leftarrow> encoder res (xgb res features);
       s \<leftarrow> encoder res (svm res features);
       c \<leftarrow> consensus_of [r, x, s];
       Some \<lparr>rf_pred = r, xgb_pred = x, svm_pred = s, consensus = c\<rparr>
     }"

subsection \<open>Trend history\<close>

text \<open>\<^verbatim>\<open>st.session_state.history\<close>: four lists under the keys N, P, pH and time.\<close>

record history =
  hist_N :: "real list"
  hist_P :: "real list"
  hist_pH :: "real list"
  hist_time :: "string list"

definition history0 :: history where
  "history0 = \<lparr>hist_N = [], hist_P = [], hist_pH = [], hist_time = []\<rparr>"

text \<open>\<^verbatim>\<open>xs.pop(0)\<close>: \<^verbatim>\<open>IndexError\<close> on an empty list.\<close>

definition pop0 :: "'a list \<Rightarrow> 'a list option" where
  "pop0 xs = (case xs of [] \<Rightarrow> None | x # rest \<Rightarrow> Some rest)"

definition update_history :: "history \<Rightarrow> reading \<Rightarrow> string \<Rightarrow> history option" where
  "update_history h sensor_vals now =
     (let h1 = \<lparr>hist_N = hist_N h @ [Nitrogen sensor_vals],
                hist_P = hist_P h @ [Phosphorus sensor_vals],
                hist_pH = hist_pH h @ [pH sensor_vals],
                hist_time = hist_time h @ [now]\<rparr>
      in if 30 < length (hist_time h1) then
           do {
             n \<leftarrow> pop0 (hist_N h1);
             p \<leftarrow> pop0 (hist_P h1);
             a \<leftarrow> pop0 (hist_pH h1);
             t \<leftarrow> pop0 (hist_time h1);
             Some \<lparr>hist_N = n, hist_P = p, hist_pH = a, hist_time = t\<rparr>
           }
         else Some h1)"

text \<open>
  One call of \<^verbatim>\<open>run_dashboard_cycle\<close>: nothing happens unless a reading was
  acquired and the models are loaded; an exception leaves the cycle; otherwise the
  verdict is shown and the history updated.
\<close>

datatype cycle = Skipped | Raised | Shown verdict history

definition run_dashboard_cycle ::
  "(string \<Rightarrow> real option) \<Rightarrow> string \<Rightarrow> config \<Rightarrow> world \<Rightarrow> resources option \<Rightarrow> string
   \<Rightarrow> history \<Rightarrow> cycle" where
  "run_dashboard_cycle str2float mode cfg w loaded now h =
     (case get_sensor_data str2float mode cfg w of
        Inl e \<Rightarrow> Skipped
      | Inr sensor_vals \<Rightarrow>
          (case loaded of
             None \<Rightarrow> Skipped
           | Some res \<Rightarrow>
               (case classify res (scaled_features res sensor_vals) of
                  None \<Rightarrow> Raised
                | Some v \<Rightarrow>
                    (case update_history h sensor_vals now of
                       None \<Rightarrow> Raised
                     | Some h' \<Rightarrow> Shown v h'))))"

text \<open>
  The histories a session can hold: it starts empty and changes only in a cycle that
  gets as far as the update.
\<close>

inductive session :: "history \<Rightarrow> bool" where
  start: "session history0"
| cycle: "session h \<Longrightarrow> run_dashboard_cycle str2float mode cfg w loaded now h = Shown v h'
          \<Longrightarrow> session h'"

subsection \<open>Concrete inputs\<close>

text \<open>
  Three loaded bundles whose models answer with fixed class codes: a three-way split,
  a two-to-one majority with the dissenting vote last, and one with it first.
\<close>

definition three_labels :: "int \<Rightarrow> string option" where
  "three_labels c =
     (if c = 0 then Some ''Healthy''
      else if c = 1 then Some ''Deficient''
      else if c = 2 then Some ''Excess''
      else None)"

definition split_vote :: resources where
  "split_vote = \<lparr>rf = (\<lambda>v. 0), xgb = (\<lambda>v. 1), svm = (\<lambda>v. 2), scaler = (\<lambda>v. v),
                  encoder = three_labels\<rparr>"

definition majority_vote :: resources where
  "majority_vote = \<lparr>rf = (\<lambda>v. 0), xgb = (\<lambda>v. 0), svm = (\<lambda>v. 1), scaler = (\<lambda>v. v),
                     encoder = three_labels\<rparr>"

definition outvoted_rf :: resources where
  "outvoted_rf = \<lparr>rf = (\<lambda>v. 1), xgb = (\<lambda>v. 0), svm = (\<lambda>v. 0), scaler = (\<lambda>v. v),
                   encoder = three_labels\<rparr>"

text \<open>
  A stand-in for \<^verbatim>\<open>float\<close> on strings, for the concrete inputs below: it reads
  unsigned decimal literals, digits with an optional fraction, and rejects everything
  else. Every string it accepts Python converts to the same number, and both reject
  \<^verbatim>\<open>"abc"\<close>.
\<close>

definition is_digit :: "char \<Rightarrow> bool" where
  "is_digit c = (c \<in> set ''0123456789'')"

definition digits_value :: "string \<Rightarrow> nat" where
  "digits_value ds = foldl (\<lambda>acc c. 10 * acc + (of_char c - 48)) 0 ds"

definition decimal_float :: "string \<Rightarrow> real option" where
  "decimal_float s =
     (let ip = takeWhile is_digit s; rest = dropWhile is_digit s
      in if ip = [] then None
         else if rest = [] then Some (real (digits_value ip))
         else if hd rest = CHR ''.'' \<and> tl rest \<noteq> [] \<and> list_all is_digit (tl rest)
           then Some (real (digits_value ip)
                      + real (digits_value (tl rest)) / 10 ^ length (tl rest))
         else None)"

text \<open>The sidebar's defaults, with the field mapping as the select boxes preset it.\<close>

definition bench_config :: config where
  "bench_config =
     \<lparr>com_port = ''COM3'', baudrate = 9600, slave_id = 1, timeout = 1, function_code = 3,
      ts_channel = ''3187265'', ts_key = ''READKEY'',
      mapping = [(''Temperature'', ''field1''), (''Moisture'', ''field2''),
                 (''Nitrogen'', ''field3''), (''Phosphorus'', ''field4''),
                 (''Potassium'', ''field5''), (''pH'', ''field6''),
                 (''Humidity'', ''field7'')]\<rparr>"

text \<open>
  Serial buses: no driver on the host; a probe whose register 3 never answers; a probe
  that answers 256 on every register.
\<close>

definition no_bus :: modbus where
  "no_bus = \<lparr>driver_installed = False, open_port = (\<lambda>p s. False),
             configure = (\<lambda>b t. False), read_raw = (\<lambda>fc a. None)\<rparr>"

definition broken_bus :: modbus where
  "broken_bus = \<lparr>driver_installed = True, open_port = (\<lambda>p s. True),
                 configure = (\<lambda>b t. True),
                 read_raw = (\<lambda>fc a. if a = 3 then None else Some 256)\<rparr>"

definition working_bus :: modbus where
  "working_bus = \<lparr>driver_installed = True, open_port = (\<lambda>p s. True),
                  configure = (\<lambda>b t. True), read_raw = (\<lambda>fc a. Some 256)\<rparr>"

definition midpoint_world :: world where
  "midpoint_world = \<lparr>random_draw = (\<lambda>i. 1 / 2), http_get = (\<lambda>url. None), bus = no_bus\<rparr>"

definition broken_world :: world where
  "broken_world = \<lparr>random_draw = (\<lambda>i. 0), http_get = (\<lambda>url. None), bus = broken_bus\<rparr>"

definition working_world :: world where
  "working_world = \<lparr>random_draw = (\<lambda>i. 0), http_get = (\<lambda>url. None), bus = working_bus\<rparr>"

text \<open>The seven keys of \<^verbatim>\<open>data\<close>.\<close>

definition canonical_fields :: "string list" where
  "canonical_fields = [''Temperature'', ''Moisture'', ''Nitrogen'', ''Phosphorus'',
                       ''Potassium'', ''pH'', ''Humidity'']"

text \<open>
  Cloud answers: a 200 response whose \<^verbatim>\<open>feeds\<close> array holds the given samples;
  a sample in which three fields are null, empty or absent; a sample whose first field
  is not a number.
\<close>

definition ok_response :: "jval list \<Rightarrow> http_response" where
  "ok_response samples =
     \<lparr>status_code = 200,
      json_body = Some (JObj [(''channel'', JObj [(''id'', JInt 3187265)]),
                              (''feeds'', JArr samples)])\<rparr>"

definition cloud_world :: "jval list \<Rightarrow> world" where
  "cloud_world samples =
     \<lparr>random_draw = (\<lambda>i. 0), http_get = (\<lambda>url. Some (ok_response samples)), bus = no_bus\<rparr>"

definition sparse_sample :: "(string \<times> jval) list" where
  "sparse_sample =
     [(''created_at'', JStr ''2025-01-01T00:00:00Z''), (''entry_id'', JInt 7),
      (''field1'', JStr ''28.5''), (''field2'', JNull), (''field3'', JStr ''''),
      (''field4'', JStr ''40''), (''field5'', JStr ''220''), (''field6'', JStr ''6.2'')]"

definition garbled_sample :: "(string \<times> jval) list" where
  "garbled_sample =
     [(''created_at'', JStr ''2025-01-01T00:00:00Z''), (''entry_id'', JInt 8),
      (''field1'', JStr ''abc''), (''field2'', JStr ''55''), (''field3'', JStr ''180''),
      (''field4'', JStr ''40''), (''field5'', JStr ''220''), (''field6'', JStr ''6.2''),
      (''field7'', JStr ''70'')]"

section \<open>Properties\<close>

subsection \<open>The vote\<close>

lemma consensus_of_three:
  "consensus_of [a, b, c] = Some (if b = c \<and> a \<noteq> b then b else a)"
  by (simp add: consensus_of_def most_common_1_def Counter_def)

text \<open>
  C1. When the three decoded labels are pairwise distinct, the cycle's vote returns the
  Random-Forest label, and any other invocation that decodes to the same three labels,
  whatever the bundle and the vector, returns the same consensus.
\<close>

theorem tie_break_is_rf:
  assumes "encoder res (rf res features) = Some A"
    and "encoder res (xgb res features) = Some B"
    and "encoder res (svm res features) = Some C"
    and "A \<noteq> B" and "B \<noteq> C" and "A \<noteq> C"
  shows "classify res features =
           Some \<lparr>rf_pred = A, xgb_pred = B, svm_pred = C, consensus = A\<rparr>
         \<and> (\<forall>res' features'.
              encoder res' (rf res' features') = Some A
              \<and> encoder res' (xgb res' features') = Some B
              \<and> encoder res' (svm res' features') = Some C
              \<longrightarrow> map_option consensus (classify res' features')
                    = map_option consensus (classify res features))"
  using assms by (simp add: classify_def consensus_of_three)

theorem tie_break_is_rf_witness:
  "classify split_vote [0, 0, 0, 0, 0, 0] =
     Some \<lparr>rf_pred = ''Healthy'', xgb_pred = ''Deficient'', svm_pred = ''Excess'',
           consensus = ''Healthy''\<rparr>
   \<and> map_option consensus (classify split_vote [1, 2, 3, 4, 5, 6])
       = map_option consensus (classify split_vote [0, 0, 0, 0, 0, 0])"
proof -
  have d: "encoder split_vote (rf split_vote [0, 0, 0, 0, 0, 0]) = Some ''Healthy''"
    "encoder split_vote (xgb split_vote [0, 0, 0, 0, 0, 0]) = Some ''Deficient''"
    "encoder split_vote (svm split_vote [0, 0, 0, 0, 0, 0]) = Some ''Excess''"
    "''Healthy'' \<noteq> ''Deficient''" "''Deficient'' \<noteq> ''Excess''" "''Healthy'' \<noteq> ''Excess''"
    by (simp_all add: split_vote_def three_labels_def)
  have e: "encoder split_vote (rf split_vote [1, 2, 3, 4, 5, 6]) = Some ''Healthy''
     \<and> encoder split_vote (xgb split_vote [1, 2, 3, 4, 5, 6]) = Some ''Deficient''
     \<and> encoder split_vote (svm split_vote [1, 2, 3, 4, 5, 6]) = Some ''Excess''"
    by (simp add: split_vote_def three_labels_def)
  from tie_break_is_rf [OF d] e show ?thesis by blast
qed

text \<open>
  C2. When some label occurs at least twice among the three decoded labels, the
  consensus is that label; the votes Healthy, Healthy, Deficient give Healthy.
\<close>

theorem majority_wins:
  assumes "encoder res (rf res features) = Some r"
    and "encoder res (xgb res features) = Some x"
    and "encoder res (svm res features) = Some s"
    and "2 \<le> count_list [r, x, s] m"
  shows "classify res features =
           Some \<lparr>rf_pred = r, xgb_pred = x, svm_pred = s, consensus = m\<rparr>
         \<and> consensus_of [''Healthy'', ''Healthy'', ''Deficient''] = Some ''Healthy''"
  using assms by (auto simp add: classify_def consensus_of_three split: if_splits)

theorem majority_wins_witness:
  "classify majority_vote [0, 0, 0, 0, 0, 0] =
     Some \<lparr>rf_pred = ''Healthy'', xgb_pred = ''Healthy'', svm_pred = ''Deficient'',
           consensus = ''Healthy''\<rparr>"
proof -
  have d: "encoder majority_vote (rf majority_vote [0, 0, 0, 0, 0, 0]) = Some ''Healthy''"
    "encoder majority_vote (xgb majority_vote [0, 0, 0, 0, 0, 0]) = Some ''Healthy''"
    "encoder majority_vote (svm majority_vote [0, 0, 0, 0, 0, 0]) = Some ''Deficient''"
    "2 \<le> count_list [''Healthy'', ''Healthy'', ''Deficient''] ''Healthy''"
    by (simp_all add: majority_vote_def three_labels_def)
  from majority_wins [OF d] show ?thesis by blast
qed

text \<open>
  C10. Whenever the vote produces a verdict, its consensus is one of the three labels
  the classifiers voted for.
\<close>

theorem consensus_is_a_vote:
  "classify res features = Some v \<Longrightarrow> consensus v \<in> {rf_pred v, xgb_pred v, svm_pred v}"
  by (auto simp add: classify_def consensus_of_three split: Option.bind_splits if_splits)

theorem consensus_is_a_vote_witness:
  "consensus \<lparr>rf_pred = ''Deficient'', xgb_pred = ''Healthy'', svm_pred = ''Healthy'',
              consensus = ''Healthy''\<rparr>
     \<in> {''Deficient'', ''Healthy''}"
proof -
  have "classify outvoted_rf [0, 0, 0, 0, 0, 0] =
          Some \<lparr>rf_pred = ''Deficient'', xgb_pred = ''Healthy'', svm_pred = ''Healthy'',
                consensus = ''Healthy''\<rparr>"
    by (simp add: classify_def consensus_of_three outvoted_rf_def three_labels_def)
  from consensus_is_a_vote [OF this] show ?thesis by simp
qed

subsection \<open>The feature vector\<close>

text \<open>
  C5. For every reading the vector handed to the scaler has exactly the six values
  Temperature, Moisture, Nitrogen, Phosphorus, Potassium, pH in that order, each the
  reading's own value unchanged, and it does not depend on Humidity.
\<close>

theorem input_data_six:
  "input_data r = [Temperature r, Moisture r, Nitrogen r, Phosphorus r, Potassium r, pH r]
   \<and> length (input_data r) = 6
   \<and> input_data (r\<lparr>Humidity := h\<rparr>) = input_data r
   \<and> scaled_features res r =
       scaler res [Temperature r, Moisture r, Nitrogen r, Phosphorus r, Potassium r, pH r]"
  by (simp add: input_data_def scaled_features_def)

subsection \<open>Simulation Mode\<close>

lemma round_half_even_ge: "of_int k \<le> y \<Longrightarrow> k \<le> round_half_even y"
proof -
  assume "of_int k \<le> y"
  then have "k \<le> \<lfloor>y\<rfloor>" by (simp add: le_floor_iff)
  then show ?thesis by (simp add: round_half_even_def Let_def)
qed

lemma round_half_even_le: "y \<le> of_int k \<Longrightarrow> round_half_even y \<le> k"
proof (cases "y = of_int k")
  case True
  then show ?thesis by (simp add: round_half_even_def)
next
  case False
  assume "y \<le> of_int k"
  with False have "y < of_int k" by simp
  then have "\<lfloor>y\<rfloor> < k" by (simp add: floor_less_iff)
  then show ?thesis by (simp add: round_half_even_def Let_def)
qed

lemma py_round_bounds:
  assumes "of_int lo \<le> x * 10 ^ n" and "x * 10 ^ n \<le> of_int hi"
  shows "of_int lo / 10 ^ n \<le> py_round x n \<and> py_round x n \<le> of_int hi / 10 ^ n"
  using round_half_even_ge [OF assms(1)] round_half_even_le [OF assms(2)]
  by (simp add: py_round_def divide_right_mono)

lemma py_round_grid: "py_round x n * 10 ^ n \<in> \<int>"
  by (simp add: py_round_def)

lemma uniform_bounds:
  assumes "a \<le> b" and "0 \<le> u" and "u < 1"
  shows "a \<le> uniform a b u \<and> uniform a b u \<le> b"
proof -
  from assms have "0 \<le> (b - a) * u" by simp
  moreover from assms have "(b - a) * u \<le> (b - a) * 1"
    by (intro mult_left_mono) simp_all
  ultimately show ?thesis by (simp add: uniform_def)
qed

lemma draw_bounds:
  assumes "a \<le> b" and "0 \<le> u" and "u < 1"
    and "a * 10 ^ n = of_int lo" and "b * 10 ^ n = of_int hi"
  shows "a \<le> py_round (uniform a b u) n \<and> py_round (uniform a b u) n \<le> b"
proof -
  from uniform_bounds [OF assms(1,2,3)]
  have "a * 10 ^ n \<le> uniform a b u * 10 ^ n" and "uniform a b u * 10 ^ n \<le> b * 10 ^ n"
    by (simp_all add: mult_right_mono)
  then have "of_int lo \<le> uniform a b u * 10 ^ n" and "uniform a b u * 10 ^ n \<le> of_int hi"
    using assms(4,5) by simp_all
  from py_round_bounds [OF this]
  have "a * 10 ^ n / 10 ^ n \<le> py_round (uniform a b u) n"
    and "py_round (uniform a b u) n \<le> b * 10 ^ n / 10 ^ n"
    using assms(4,5) by simp_all
  then show ?thesis by simp
qed

text \<open>
  C7. In Simulation Mode, whatever the seven draws of \<^verbatim>\<open>random()\<close> in \<open>[0, 1)\<close>,
  \<^verbatim>\<open>get_sensor_data\<close> returns a reading, never a failure, and every field lies
  within its documented bounds and on the grid of its rounding precision.
\<close>

theorem simulation_in_bounds:
  assumes "\<forall>i<7. 0 \<le> random_draw w i \<and> random_draw w i < 1"
  shows "\<exists>r. get_sensor_data str2float ''Simulation Mode'' cfg w = Inr r
     \<and> 22 \<le> Temperature r \<and> Temperature r \<le> 35 \<and> Temperature r * 10 \<in> \<int>
     \<and> 40 \<le> Moisture r \<and> Moisture r \<le> 80 \<and> Moisture r * 10 \<in> \<int>
     \<and> 100 \<le> Nitrogen r \<and> Nitrogen r \<le> 250 \<and> Nitrogen r \<in> \<int>
     \<and> 10 \<le> Phosphorus r \<and> Phosphorus r \<le> 60 \<and> Phosphorus r \<in> \<int>
     \<and> 150 \<le> Potassium r \<and> Potassium r \<le> 300 \<and> Potassium r \<in> \<int>
     \<and> 55 / 10 \<le> pH r \<and> pH r \<le> 75 / 10 \<and> pH r * 100 \<in> \<int>
     \<and> 60 \<le> Humidity r \<and> Humidity r \<le> 90 \<and> Humidity r * 10 \<in> \<int>"
proof -
  let ?u = "random_draw w"
  from assms have u: "\<And>i. i < 7 \<Longrightarrow> 0 \<le> ?u i" "\<And>i. i < 7 \<Longrightarrow> ?u i < 1" by simp_all
  have t: "22 \<le> py_round (uniform 22 35 (?u 0)) 1 \<and> py_round (uniform 22 35 (?u 0)) 1 \<le> 35"
    by (rule draw_bounds [where lo = 220 and hi = 350]) (simp_all add: u)
  have m: "40 \<le> py_round (uniform 40 80 (?u 1)) 1 \<and> py_round (uniform 40 80 (?u 1)) 1 \<le> 80"
    by (rule draw_bounds [where lo = 400 and hi = 800]) (simp_all add: u)
  have n: "100 \<le> py_round (uniform 100 250 (?u 2)) 0
           \<and> py_round (uniform 100 250 (?u 2)) 0 \<le> 250"
    by (rule draw_bounds [where lo = 100 and hi = 250]) (simp_all add: u)
  have p: "10 \<le> py_round (uniform 10 60 (?u 3)) 0 \<and> py_round (uniform 10 60 (?u 3)) 0 \<le> 60"
    by (rule draw_bounds [where lo = 10 and hi = 60]) (simp_all add: u)
  have k: "150 \<le> py_round (uniform 150 300 (?u 4)) 0
           \<and> py_round (uniform 150 300 (?u 4)) 0 \<le> 300"
    by (rule draw_bounds [where lo = 150 and hi = 300]) (simp_all add: u)
  have a: "55 / 10 \<le> py_round (uniform (55 / 10) (75 / 10) (?u 5)) 2
           \<and> py_round (uniform (55 / 10) (75 / 10) (?u 5)) 2 \<le> 75 / 10"
    by (rule draw_bounds [where lo = 550 and hi = 750]) (simp_all add: u)
  have h: "60 \<le> py_round (uniform 60 90 (?u 6)) 1 \<and> py_round (uniform 60 90 (?u 6)) 1 \<le> 90"
    by (rule draw_bounds [where lo = 600 and hi = 900]) (simp_all add: u)
  have g1: "py_round x (Suc 0) * 10 \<in> \<int>" for x using py_round_grid [of x 1] by simp
  have g0: "py_round x 0 \<in> \<int>" for x using py_round_grid [of x 0] by simp
  have g2: "py_round x 2 * 100 \<in> \<int>" for x using py_round_grid [of x 2] by simp
  show ?thesis
    using t m n p k a h
    by (simp add: get_sensor_data_def simulation_mode_def g0 g1 g2)
qed

theorem simulation_in_bounds_witness:
  "\<exists>r. get_sensor_data decimal_float ''Simulation Mode'' bench_config midpoint_world = Inr r
     \<and> 22 \<le> Temperature r \<and> Temperature r \<le> 35 \<and> Temperature r * 10 \<in> \<int>
     \<and> 40 \<le> Moisture r \<and> Moisture r \<le> 80 \<and> Moisture r * 10 \<in> \<int>
     \<and> 100 \<le> Nitrogen r \<and> Nitrogen r \<le> 250 \<and> Nitrogen r \<in> \<int>
     \<and> 10 \<le> Phosphorus r \<and> Phosphorus r \<le> 60 \<and> Phosphorus r \<in> \<int>
     \<and> 150 \<le> Potassium r \<and> Potassium r \<le> 300 \<and> Potassium r \<in> \<int>
     \<and> 55 / 10 \<le> pH r \<and> pH r \<le> 75 / 10 \<and> pH r * 100 \<in> \<int>
     \<and> 60 \<le> Humidity r \<and> Humidity r \<le> 90 \<and> Humidity r * 10 \<in> \<int>"
proof (rule simulation_in_bounds)
  show "\<forall>i<7. 0 \<le> random_draw midpoint_world i \<and> random_draw midpoint_world i < 1"
    by (simp add: midpoint_world_def)
qed

subsection \<open>Live Sensor Mode\<close>

lemma ex_less_7: "(\<exists>a<7. P (a::nat)) \<longleftrightarrow> P 0 \<or> P 1 \<or> P 2 \<or> P 3 \<or> P 4 \<or> P 5 \<or> P 6"
  by (auto simp add: eval_nat_numeral Ex_less_Suc)

lemma read_all_None:
  "read_all env fc d = None \<longleftrightarrow> (\<exists>a<7. read_raw env fc a = None)"
proof -
  have "read_all env fc d = None \<longleftrightarrow>
          read_raw env fc 0 = None \<or> read_raw env fc 1 = None \<or> read_raw env fc 2 = None
          \<or> read_raw env fc 3 = None \<or> read_raw env fc 4 = None \<or> read_raw env fc 5 = None
          \<or> read_raw env fc 6 = None"
    by (cases "read_raw env fc 0"; cases "read_raw env fc 1"; cases "read_raw env fc 2";
        cases "read_raw env fc 3"; cases "read_raw env fc 4"; cases "read_raw env fc 5";
        cases "read_raw env fc 6"; simp add: read_all_def read_register_def)
  then show ?thesis by (simp only: ex_less_7)
qed

lemma port_after_live:
  "port_after ''Live Sensor Mode'' cfg w =
     (if driver_installed (bus w) \<and> open_port (bus w) (com_port cfg) (slave_id cfg)
      then Some PortClosed else None)"
  by (simp add: port_after_def live_sensor_mode_def live_try_def finally_close_def
        split: option.splits)

lemma live_result:
  "get_sensor_data f ''Live Sensor Mode'' cfg w =
     (if \<not> driver_installed (bus w) then Inl ModbusNotFound
      else if \<not> open_port (bus w) (com_port cfg) (slave_id cfg) then Inl SensorConnectionError
      else if \<not> configure (bus w) (baudrate cfg) (timeout cfg) then Inl SensorConnectionError
      else (case read_all (bus w) (function_code cfg) data0 of
              None \<Rightarrow> Inl SensorConnectionError | Some d \<Rightarrow> Inr d))"
  by (simp add: get_sensor_data_def live_sensor_mode_def live_try_def split: option.splits)


text \<open>
  C6. In Live Sensor Mode the instrument's port is never left open when
  \<^verbatim>\<open>get_sensor_data\<close> returns: once the instrument has been created the port is
  closed, on the successful return and on an exception from any of the seven register
  reads alike; when the driver import or the constructor fails there is no instrument.
\<close>

theorem serial_port_released:
  "port_after ''Live Sensor Mode'' cfg w \<noteq> Some PortOpen
   \<and> (driver_installed (bus w) \<and> open_port (bus w) (com_port cfg) (slave_id cfg)
        \<longrightarrow> port_after ''Live Sensor Mode'' cfg w = Some PortClosed)
   \<and> (\<not> driver_installed (bus w)
        \<longrightarrow> get_sensor_data f ''Live Sensor Mode'' cfg w = Inl ModbusNotFound
            \<and> port_after ''Live Sensor Mode'' cfg w = None)
   \<and> (driver_installed (bus w) \<and> \<not> open_port (bus w) (com_port cfg) (slave_id cfg)
        \<longrightarrow> get_sensor_data f ''Live Sensor Mode'' cfg w = Inl SensorConnectionError
            \<and> port_after ''Live Sensor Mode'' cfg w = None)
   \<and> (driver_installed (bus w) \<and> open_port (bus w) (com_port cfg) (slave_id cfg)
        \<and> configure (bus w) (baudrate cfg) (timeout cfg)
        \<and> (\<exists>a<7. read_raw (bus w) (function_code cfg) a = None)
        \<longrightarrow> get_sensor_data f ''Live Sensor Mode'' cfg w = Inl SensorConnectionError
            \<and> port_after ''Live Sensor Mode'' cfg w = Some PortClosed)
   \<and> (driver_installed (bus w) \<and> open_port (bus w) (com_port cfg) (slave_id cfg)
        \<and> configure (bus w) (baudrate cfg) (timeout cfg)
        \<and> (\<forall>a<7. read_raw (bus w) (function_code cfg) a \<noteq> None)
        \<longrightarrow> (\<exists>r. get_sensor_data f ''Live Sensor Mode'' cfg w = Inr r)
            \<and> port_after ''Live Sensor Mode'' cfg w = Some PortClosed)"
proof -
  let ?made = "driver_installed (bus w) \<and> open_port (bus w) (com_port cfg) (slave_id cfg)"
  let ?ready = "?made \<and> configure (bus w) (baudrate cfg) (timeout cfg)"
  have p: "port_after ''Live Sensor Mode'' cfg w = (if ?made then Some PortClosed else None)"
    by (rule port_after_live)
  have c1: "port_after ''Live Sensor Mode'' cfg w \<noteq> Some PortOpen"
    by (simp add: p)
  have c2: "?made \<longrightarrow> port_after ''Live Sensor Mode'' cfg w = Some PortClosed"
    by (simp add: p)
  have c3: "\<not> driver_installed (bus w)
        \<longrightarrow> get_sensor_data f ''Live Sensor Mode'' cfg w = Inl ModbusNotFound
            \<and> port_after ''Live Sensor Mode'' cfg w = None"
    by (simp add: p live_result)
  have c4: "driver_installed (bus w) \<and> \<not> open_port (bus w) (com_port cfg) (slave_id cfg)
        \<longrightarrow> get_sensor_data f ''Live Sensor Mode'' cfg w = Inl SensorConnectionError
            \<and> port_after ''Live Sensor Mode'' cfg w = None"
    by (simp add: p live_result)
  have c5: "?ready \<and> (\<exists>a<7. read_raw (bus w) (function_code cfg) a = None)
        \<longrightarrow> get_sensor_data f ''Live Sensor Mode'' cfg w = Inl SensorConnectionError
            \<and> port_after ''Live Sensor Mode'' cfg w = Some PortClosed"
  proof
    assume h: "?ready \<and> (\<exists>a<7. read_raw (bus w) (function_code cfg) a = None)"
    then have "read_all (bus w) (function_code cfg) data0 = None"
      by (simp only: read_all_None)
    with h show "get_sensor_data f ''Live Sensor Mode'' cfg w = Inl SensorConnectionError
            \<and> port_after ''Live Sensor Mode'' cfg w = Some PortClosed"
      by (simp add: p live_result)
  qed
  have c6: "?ready \<and> (\<forall>a<7. read_raw (bus w) (function_code cfg) a \<noteq> None)
        \<longrightarrow> (\<exists>r. get_sensor_data f ''Live Sensor Mode'' cfg w = Inr r)
            \<and> port_after ''Live Sensor Mode'' cfg w = Some PortClosed"
  proof
    assume h: "?ready \<and> (\<forall>a<7. read_raw (bus w) (function_code cfg) a \<noteq> None)"
    then have "\<not> (\<exists>a<7. read_raw (bus w) (function_code cfg) a = None)" by blast
    then have "read_all (bus w) (function_code cfg) data0 \<noteq> None"
      by (simp add: read_all_None)
    then obtain r where "read_all (bus w) (function_code cfg) data0 = Some r" by blast
    with h show "(\<exists>r. get_sensor_data f ''Live Sensor Mode'' cfg w = Inr r)
            \<and> port_after ''Live Sensor Mode'' cfg w = Some PortClosed"
      by (simp add: p live_result)
  qed
  from c1 c2 c3 c4 c5 c6 show ?thesis by (simp only: conj_assoc simp_thms)
qed

theorem serial_port_released_witness:
  "get_sensor_data decimal_float ''Live Sensor Mode'' bench_config broken_world
     = Inl SensorConnectionError
   \<and> port_after ''Live Sensor Mode'' bench_config broken_world = Some PortClosed
   \<and> get_sensor_data decimal_float ''Live Sensor Mode'' bench_config midpoint_world
     = Inl ModbusNotFound
   \<and> port_after ''Live Sensor Mode'' bench_config midpoint_world = None
   \<and> (\<exists>r. get_sensor_data decimal_float ''Live Sensor Mode'' bench_config working_world = Inr r)
   \<and> port_after ''Live Sensor Mode'' bench_config working_world = Some PortClosed"
proof -
  have b: "driver_installed (bus broken_world)
      \<and> open_port (bus broken_world) (com_port bench_config) (slave_id bench_config)
      \<and> configure (bus broken_world) (baudrate bench_config) (timeout bench_config)
      \<and> (\<exists>a<7. read_raw (bus broken_world) (function_code bench_config) a = None)"
    by (simp add: broken_world_def broken_bus_def ex_less_7)
  have m: "\<not> driver_installed (bus midpoint_world)"
    by (simp add: midpoint_world_def no_bus_def)
  have g: "driver_installed (bus working_world)
      \<and> open_port (bus working_world) (com_port bench_config) (slave_id bench_config)
      \<and> configure (bus working_world) (baudrate bench_config) (timeout bench_config)
      \<and> (\<forall>a<7. read_raw (bus working_world) (function_code bench_config) a \<noteq> None)"
    by (simp add: working_world_def working_bus_def)
  from serial_port_released [of bench_config broken_world decimal_float] b
  have r1: "get_sensor_data decimal_float ''Live Sensor Mode'' bench_config broken_world
              = Inl SensorConnectionError
            \<and> port_after ''Live Sensor Mode'' bench_config broken_world = Some PortClosed"
    by simp
  from serial_port_released [of bench_config midpoint_world decimal_float] m
  have r2: "get_sensor_data decimal_float ''Live Sensor Mode'' bench_config midpoint_world
              = Inl ModbusNotFound
            \<and> port_after ''Live Sensor Mode'' bench_config midpoint_world = None"
    by simp
  from serial_port_released [of bench_config working_world decimal_float] g
  have r3: "(\<exists>r. get_sensor_data decimal_float ''Live Sensor Mode'' bench_config working_world
              = Inr r)
            \<and> port_after ''Live Sensor Mode'' bench_config working_world = Some PortClosed"
    by simp
  from r1 r2 r3 show ?thesis by (simp only: conj_assoc simp_thms)
qed

subsection \<open>ThingSpeak Cloud\<close>

lemma cloud_result:
  assumes "http_get w (thingspeak_url (ts_channel cfg) (ts_key cfg)) = Some resp"
    and "json_body resp = Some (JObj body)"
    and "map_of body ''feeds'' = Some feeds"
  shows "get_sensor_data f ''ThingSpeak Cloud'' cfg w =
     (if raise_for_status resp then Inl ThingSpeakError
      else if truthy feeds then
        (case subscript_last feeds of
           None \<Rightarrow> Inl ThingSpeakError
         | Some latest \<Rightarrow>
             (case subscript_key latest ''created_at'' of
                None \<Rightarrow> Inl ThingSpeakError
              | Some created \<Rightarrow>
                  (case latest of
                     JObj sample \<Rightarrow>
                       (case (if mapping cfg \<noteq> []
                              then read_mapped f sample (mapping cfg) data0
                              else read_default f sample data0) of
                          None \<Rightarrow> Inl ThingSpeakError
                        | Some d \<Rightarrow> Inr d)
                   | _ \<Rightarrow> Inl ThingSpeakError)))
      else Inl ChannelEmpty)"
  using assms by (simp add: get_sensor_data_def thingspeak_cloud_def)

text \<open>
  C4. When the JSON body of the response has an empty \<^verbatim>\<open>feeds\<close> array,
  \<^verbatim>\<open>get_sensor_data\<close> fails: with the empty-channel warning when the status is
  accepted, with the error of \<^verbatim>\<open>raise_for_status\<close> otherwise. It never returns
  a reading, so none with seven zero fields.
\<close>

theorem empty_feed_is_failure:
  assumes "http_get w (thingspeak_url (ts_channel cfg) (ts_key cfg)) = Some resp"
    and "json_body resp = Some (JObj body)"
    and "map_of body ''feeds'' = Some (JArr [])"
  shows "get_sensor_data f ''ThingSpeak Cloud'' cfg w
           = (if raise_for_status resp then Inl ThingSpeakError else Inl ChannelEmpty)
         \<and> isl (get_sensor_data f ''ThingSpeak Cloud'' cfg w)
         \<and> get_sensor_data f ''ThingSpeak Cloud'' cfg w \<noteq> Inr data0"
  by (simp add: cloud_result [OF assms])

theorem empty_feed_is_failure_witness:
  "get_sensor_data decimal_float ''ThingSpeak Cloud'' bench_config (cloud_world [])
     = Inl ChannelEmpty
   \<and> get_sensor_data decimal_float ''ThingSpeak Cloud'' bench_config (cloud_world [])
     \<noteq> Inr data0"
proof -
  have h: "http_get (cloud_world []) (thingspeak_url (ts_channel bench_config) (ts_key bench_config))
             = Some (ok_response [])"
    "json_body (ok_response []) =
       Some (JObj [(''channel'', JObj [(''id'', JInt 3187265)]), (''feeds'', JArr [])])"
    "map_of [(''channel'', JObj [(''id'', JInt 3187265)]), (''feeds'', JArr [])] ''feeds''
       = Some (JArr [])"
    by (simp_all add: cloud_world_def ok_response_def)
  have "\<not> raise_for_status (ok_response [])"
    by (simp add: raise_for_status_def ok_response_def)
  with empty_feed_is_failure [OF h, of decimal_float] show ?thesis by simp
qed

lemma read_mapped_all:
  "read_mapped f sample m data0 =
     (if \<forall>name \<in> set canonical_fields. mapped_field f sample m name \<noteq> None
      then Some \<lparr>Temperature = the (mapped_field f sample m ''Temperature''),
                 Moisture = the (mapped_field f sample m ''Moisture''),
                 Nitrogen = the (mapped_field f sample m ''Nitrogen''),
                 Phosphorus = the (mapped_field f sample m ''Phosphorus''),
                 Potassium = the (mapped_field f sample m ''Potassium''),
                 pH = the (mapped_field f sample m ''pH''),
                 Humidity = the (mapped_field f sample m ''Humidity'')\<rparr>
      else None)"
  by (cases "mapped_field f sample m ''Temperature''";
      cases "mapped_field f sample m ''Moisture''";
      cases "mapped_field f sample m ''Nitrogen''";
      cases "mapped_field f sample m ''Phosphorus''";
      cases "mapped_field f sample m ''Potassium''";
      cases "mapped_field f sample m ''pH''";
      cases "mapped_field f sample m ''Humidity''";
      simp add: read_mapped_def canonical_fields_def data0_def)

lemma mapped_field_falsy:
  assumes "map_of m name = Some fid" and "\<not> truthy (dict_get sample fid)"
  shows "mapped_field f sample m name = Some 0"
  using assms by (simp add: mapped_field_def py_or_def)

text \<open>
  C3, as the code has it. Given a response that passes \<^verbatim>\<open>raise_for_status\<close>, a
  non-empty feed whose latest sample is an object with a \<^verbatim>\<open>created_at\<close> entry, and
  a mapping with all seven keys: every field whose mapped source value is absent or
  falsy (null, empty string, zero, false) converts to 0.0, and the reading made of the
  seven conversions is returned exactly when \<^verbatim>\<open>float\<close> accepts every remaining
  value. One value that \<^verbatim>\<open>float\<close> rejects fails the whole acquisition.
\<close>

theorem cloud_defaults_falsy:
  assumes "http_get w (thingspeak_url (ts_channel cfg) (ts_key cfg)) = Some resp"
    and "\<not> raise_for_status resp"
    and "json_body resp = Some (JObj body)"
    and "map_of body ''feeds'' = Some (JArr samples)"
    and "samples \<noteq> []"
    and "last samples = JObj latest"
    and "map_of latest ''created_at'' = Some created"
    and "\<forall>name \<in> set canonical_fields. map_of (mapping cfg) name \<noteq> None"
  shows "(\<forall>name \<in> set canonical_fields.
            \<not> truthy (dict_get latest (the (map_of (mapping cfg) name)))
            \<longrightarrow> mapped_field f latest (mapping cfg) name = Some 0)
         \<and> get_sensor_data f ''ThingSpeak Cloud'' cfg w =
             (if \<forall>name \<in> set canonical_fields. mapped_field f latest (mapping cfg) name \<noteq> None
              then Inr \<lparr>Temperature = the (mapped_field f latest (mapping cfg) ''Temperature''),
                        Moisture = the (mapped_field f latest (mapping cfg) ''Moisture''),
                        Nitrogen = the (mapped_field f latest (mapping cfg) ''Nitrogen''),
                        Phosphorus = the (mapped_field f latest (mapping cfg) ''Phosphorus''),
                        Potassium = the (mapped_field f latest (mapping cfg) ''Potassium''),
                        pH = the (mapped_field f latest (mapping cfg) ''pH''),
                        Humidity = the (mapped_field f latest (mapping cfg) ''Humidity'')\<rparr>
              else Inl ThingSpeakError)"
proof
  show "\<forall>name \<in> set canonical_fields.
          \<not> truthy (dict_get latest (the (map_of (mapping cfg) name)))
          \<longrightarrow> mapped_field f latest (mapping cfg) name = Some 0"
  proof (intro ballI impI)
    fix name
    assume n: "name \<in> set canonical_fields"
      and t: "\<not> truthy (dict_get latest (the (map_of (mapping cfg) name)))"
    from n assms(8) obtain fid where fid: "map_of (mapping cfg) name = Some fid" by blast
    with t show "mapped_field f latest (mapping cfg) name = Some 0"
      by (simp add: mapped_field_falsy)
  qed
next
  from assms(8) have "map_of (mapping cfg) ''Temperature'' \<noteq> None"
    by (simp add: canonical_fields_def)
  then have ne: "mapping cfg \<noteq> []" by auto
  have "get_sensor_data f ''ThingSpeak Cloud'' cfg w =
          (case read_mapped f latest (mapping cfg) data0 of
             None \<Rightarrow> Inl ThingSpeakError | Some d \<Rightarrow> Inr d)"
    using assms(2,5,6,7) ne by (simp add: cloud_result [OF assms(1,3,4)])
  then show "get_sensor_data f ''ThingSpeak Cloud'' cfg w =
             (if \<forall>name \<in> set canonical_fields. mapped_field f latest (mapping cfg) name \<noteq> None
              then Inr \<lparr>Temperature = the (mapped_field f latest (mapping cfg) ''Temperature''),
                        Moisture = the (mapped_field f latest (mapping cfg) ''Moisture''),
                        Nitrogen = the (mapped_field f latest (mapping cfg) ''Nitrogen''),
                        Phosphorus = the (mapped_field f latest (mapping cfg) ''Phosphorus''),
                        Potassium = the (mapped_field f latest (mapping cfg) ''Potassium''),
                        pH = the (mapped_field f latest (mapping cfg) ''pH''),
                        Humidity = the (mapped_field f latest (mapping cfg) ''Humidity'')\<rparr>
              else Inl ThingSpeakError)"
    by (simp add: read_mapped_all)
qed

lemma decimal_float_examples:
  "decimal_float ''28.5'' = Some (285 / 10)" "decimal_float ''40'' = Some 40"
  "decimal_float ''220'' = Some 220" "decimal_float ''6.2'' = Some (62 / 10)"
  "decimal_float ''55'' = Some 55" "decimal_float ''180'' = Some 180"
  "decimal_float ''70'' = Some 70" "decimal_float ''abc'' = None"
  by (simp_all add: decimal_float_def is_digit_def digits_value_def)

lemma sparse_fields:
  "mapped_field decimal_float sparse_sample (mapping bench_config) ''Temperature'' = Some (285 / 10)"
  "mapped_field decimal_float sparse_sample (mapping bench_config) ''Moisture'' = Some 0"
  "mapped_field decimal_float sparse_sample (mapping bench_config) ''Nitrogen'' = Some 0"
  "mapped_field decimal_float sparse_sample (mapping bench_config) ''Phosphorus'' = Some 40"
  "mapped_field decimal_float sparse_sample (mapping bench_config) ''Potassium'' = Some 220"
  "mapped_field decimal_float sparse_sample (mapping bench_config) ''pH'' = Some (62 / 10)"
  "mapped_field decimal_float sparse_sample (mapping bench_config) ''Humidity'' = Some 0"
  by (simp_all add: mapped_field_def bench_config_def sparse_sample_def dict_get_def py_or_def
        decimal_float_examples)

theorem cloud_defaults_falsy_witness:
  "get_sensor_data decimal_float ''ThingSpeak Cloud'' bench_config
     (cloud_world [JObj garbled_sample, JObj sparse_sample])
   = Inr \<lparr>Temperature = 285 / 10, Moisture = 0, Nitrogen = 0, Phosphorus = 40,
          Potassium = 220, pH = 62 / 10, Humidity = 0\<rparr>"
proof -
  let ?w = "cloud_world [JObj garbled_sample, JObj sparse_sample]"
  let ?resp = "ok_response [JObj garbled_sample, JObj sparse_sample]"
  let ?body = "[(''channel'', JObj [(''id'', JInt 3187265)]),
                (''feeds'', JArr [JObj garbled_sample, JObj sparse_sample])]"
  have h: "http_get ?w (thingspeak_url (ts_channel bench_config) (ts_key bench_config))
             = Some ?resp"
    "\<not> raise_for_status ?resp"
    "json_body ?resp = Some (JObj ?body)"
    "map_of ?body ''feeds'' = Some (JArr [JObj garbled_sample, JObj sparse_sample])"
    "[JObj garbled_sample, JObj sparse_sample] \<noteq> []"
    "last [JObj garbled_sample, JObj sparse_sample] = JObj sparse_sample"
    "map_of sparse_sample ''created_at'' = Some (JStr ''2025-01-01T00:00:00Z'')"
    "\<forall>name \<in> set canonical_fields. map_of (mapping bench_config) name \<noteq> None"
    by (simp_all add: cloud_world_def ok_response_def raise_for_status_def sparse_sample_def
          canonical_fields_def bench_config_def)
  have a: "\<forall>name \<in> set canonical_fields.
             mapped_field decimal_float sparse_sample (mapping bench_config) name \<noteq> None"
    by (simp add: canonical_fields_def sparse_fields del: not_None_eq)
  from cloud_defaults_falsy [OF h, of decimal_float] a show ?thesis
    by (simp add: sparse_fields)
qed

text \<open>
  C3, as stated, fails: with the full mapping and a non-empty feed whose latest sample
  has the non-numeric string \<^verbatim>\<open>"abc"\<close> in \<^verbatim>\<open>field1\<close>, no reading is returned.
\<close>

theorem non_numeric_field_fails_reading:
  "decimal_float ''abc'' = None
   \<and> get_sensor_data decimal_float ''ThingSpeak Cloud'' bench_config
       (cloud_world [JObj garbled_sample]) = Inl ThingSpeakError"
  by (simp add: get_sensor_data_def thingspeak_cloud_def cloud_world_def ok_response_def
        raise_for_status_def garbled_sample_def bench_config_def read_mapped_def
        mapped_field_def dict_get_def py_or_def decimal_float_examples)

subsection \<open>The mode chain\<close>

text \<open>
  C8, as the code has it. Each of the three mode strings runs its own branch on the
  caller's configuration and returns that branch's result unchanged; any other mode
  value matches no branch and the function returns \<^verbatim>\<open>None\<close> without a message.
\<close>

theorem mode_chain:
  "get_sensor_data f ''Simulation Mode'' cfg w = Inr (simulation_mode (random_draw w) data0)
   \<and> get_sensor_data f ''ThingSpeak Cloud'' cfg w =
       thingspeak_cloud f (http_get w (thingspeak_url (ts_channel cfg) (ts_key cfg)))
         (mapping cfg) data0
   \<and> get_sensor_data f ''Live Sensor Mode'' cfg w =
       fst (live_sensor_mode (com_port cfg) (baudrate cfg) (slave_id cfg) (timeout cfg)
              (function_code cfg) (bus w) data0)
   \<and> (mode \<noteq> ''Simulation Mode'' \<and> mode \<noteq> ''ThingSpeak Cloud'' \<and> mode \<noteq> ''Live Sensor Mode''
        \<longrightarrow> get_sensor_data f mode cfg w = Inl NoModeMatched)"
  by (simp add: get_sensor_data_def)

theorem mode_chain_witness:
  "get_sensor_data decimal_float ''simulation mode'' bench_config midpoint_world
     = Inl NoModeMatched"
proof -
  have "''simulation mode'' \<noteq> ''Simulation Mode'' \<and> ''simulation mode'' \<noteq> ''ThingSpeak Cloud''
        \<and> ''simulation mode'' \<noteq> ''Live Sensor Mode''"
    by simp
  with mode_chain [of decimal_float bench_config midpoint_world "''simulation mode''"]
  show ?thesis by blast
qed

text \<open>
  C8, as stated, fails: the mode \<^verbatim>\<open>"Manual Mode"\<close> matches none of the three
  branches, and what is returned is the result of none of them.
\<close>

theorem unknown_mode_falls_through:
  "get_sensor_data decimal_float ''Manual Mode'' bench_config working_world = Inl NoModeMatched
   \<and> get_sensor_data decimal_float ''Manual Mode'' bench_config working_world
       \<noteq> Inr (simulation_mode (random_draw working_world) data0)
   \<and> get_sensor_data decimal_float ''Manual Mode'' bench_config working_world
       \<noteq> thingspeak_cloud decimal_float
            (http_get working_world
               (thingspeak_url (ts_channel bench_config) (ts_key bench_config)))
            (mapping bench_config) data0
   \<and> get_sensor_data decimal_float ''Manual Mode'' bench_config working_world
       \<noteq> fst (live_sensor_mode (com_port bench_config) (baudrate bench_config)
                (slave_id bench_config) (timeout bench_config) (function_code bench_config)
                (bus working_world) data0)"
  by (simp add: get_sensor_data_def thingspeak_cloud_def working_world_def
        live_sensor_mode_def live_try_def working_bus_def read_all_def read_register_def)

end
